theory Spec2Isabelle
  imports Main
begin

section \<open>JavaScript values\<close>

text \<open>
  The extension reads JSON that a server or a file supplies, and it tests those values
  the JavaScript way: with truthiness (\<open>!x\<close>, \<open>x || y\<close>, \<open>x && y\<close>), strict
  equality against string literals, and property reads. The model therefore keeps
  values dynamically typed. A JSON number is an integer here; fractions, infinities and
  NaN are outside the model. An object is the list of its properties, and a property
  read returns the first binding of the name.
\<close>

datatype jsval =
    JUndefined
  | JNull
  | JBool bool
  | JNum int
  | JStr string
  | JArr "jsval list"
  | JObj "(string \<times> jsval) list"

fun truthy :: "jsval \<Rightarrow> bool" where
  "truthy JUndefined = False"
| "truthy JNull = False"
| "truthy (JBool b) = b"
| "truthy (JNum n) = (n \<noteq> 0)"
| "truthy (JStr s) = (s \<noteq> [])"
| "truthy (JArr xs) = True"
| "truthy (JObj kvs) = True"

text \<open>\<open>a || b\<close>: the left operand when it is truthy, the right one otherwise.\<close>

definition js_or :: "jsval \<Rightarrow> jsval \<Rightarrow> jsval" where
  "js_or a b = (if truthy a then a else b)"

text \<open>
  \<open>v.name\<close> on a value that is neither \<open>null\<close> nor \<open>undefined\<close>. None of the names
  the extension reads is a built-in property of strings, numbers, booleans or arrays,
  so on those the read gives \<open>undefined\<close>.
\<close>

fun get_prop :: "jsval \<Rightarrow> string \<Rightarrow> jsval" where
  "get_prop (JObj kvs) k = (case map_of kvs k of Some v \<Rightarrow> v | None \<Rightarrow> JUndefined)"
| "get_prop v k = JUndefined"

text \<open>A property read on \<open>null\<close> or \<open>undefined\<close> throws a TypeError.\<close>

fun nullish :: "jsval \<Rightarrow> bool" where
  "nullish JUndefined = True"
| "nullish JNull = True"
| "nullish v = False"

datatype js_error = TypeError | SyntaxError | RangeError

section \<open>Strings\<close>

text \<open>\<open>s.split(c)\<close> for a one-character separator: never empty, one more part than separators.\<close>

fun js_split :: "char \<Rightarrow> string \<Rightarrow> string list" where
  "js_split c [] = [[]]"
| "js_split c (x # xs) =
     (if x = c then [] # js_split c xs
      else (case js_split c xs of [] \<Rightarrow> [[x]] | p # ps \<Rightarrow> (x # p) # ps))"

fun starts_with :: "string \<Rightarrow> string \<Rightarrow> bool" where
  "starts_with s [] = True"
| "starts_with [] (y # ys) = False"
| "starts_with (x # xs) (y # ys) = (x = y \<and> starts_with xs ys)"

text \<open>\<open>s.includes(t)\<close>: \<open>t\<close> occurs in \<open>s\<close> as a contiguous substring.\<close>

fun js_includes :: "string \<Rightarrow> string \<Rightarrow> bool" where
  "js_includes [] t = (t = [])"
| "js_includes (x # xs) t = (starts_with (x # xs) t \<or> js_includes xs t)"

text \<open>\<open>s.toLowerCase()\<close> on the ASCII letters.\<close>

definition lower_char :: "char \<Rightarrow> char" where
  "lower_char c =
     (let n = of_char c :: nat in if 65 \<le> n \<and> n \<le> 90 then char_of (n + 32) else c)"

definition toLowerCase :: "string \<Rightarrow> string" where
  "toLowerCase s = map lower_char s"

section \<open>The platform\<close>

text \<open>
  Three library calls that can throw are parameters of the model, since none of them
  belongs to the extension: \<open>JSON.parse\<close> on the decoded payload of a token
  (\<open>None\<close> is a thrown SyntaxError), \<open>new Date(exp * 1000).toISOString()\<close>
  (\<open>date_ok\<close> says whether the date of a truthy \<open>exp\<close> claim formats without a
  RangeError), and \<open>vscode.Uri.parse(verification_uri + "?user_code=" + user_code)\<close>
  (\<open>uri_ok\<close> says whether it returns, for the two values it is built from).
\<close>

record platform =
  JSON_parse :: "string \<Rightarrow> jsval option"
  date_ok :: "jsval \<Rightarrow> bool"
  uri_ok :: "jsval \<Rightarrow> jsval \<Rightarrow> bool"

section \<open>Base64\<close>

text \<open>
  \<open>Buffer.from(s, "base64").toString("utf8")\<close>. Node's decoder never throws. It
  reads the standard and the URL-safe alphabet, skips every other character (white space
  among them) and stops at the first \<open>=\<close>. Four characters give three bytes; two or
  three characters left at the end give one or two bytes, and a single one gives none.
  The text is kept as its bytes, which is what \<open>toString("utf8")\<close> returns on ASCII.
\<close>

definition unbase64 :: "char \<Rightarrow> nat option" where
  "unbase64 c =
     (let n = of_char c :: nat in
      if 65 \<le> n \<and> n \<le> 90 then Some (n - 65)
      else if 97 \<le> n \<and> n \<le> 122 then Some (n - 71)
      else if 48 \<le> n \<and> n \<le> 57 then Some (n + 4)
      else if c = CHR ''+'' \<or> c = CHR ''-'' then Some 62
      else if c = CHR ''/'' \<or> c = CHR ''_'' then Some 63
      else None)"

fun sextets :: "string \<Rightarrow> nat list" where
  "sextets [] = []"
| "sextets (c # cs) =
     (if c = CHR ''='' then []
      else (case unbase64 c of Some v \<Rightarrow> v # sextets cs | None \<Rightarrow> sextets cs))"

fun octets :: "nat list \<Rightarrow> nat list" where
  "octets (a # b # c # d # rest) =
     (a * 4 + b div 16) # ((b mod 16) * 16 + c div 4) # ((c mod 4) * 64 + d) # octets rest"
| "octets [a, b, c] = [a * 4 + b div 16, (b mod 16) * 16 + c div 4]"
| "octets [a, b] = [a * 4 + b div 16]"
| "octets rest = []"

definition base64_utf8 :: "string \<Rightarrow> string" where
  "base64_utf8 s = map char_of (octets (sextets s))"

section \<open>Token inspector\<close>

text \<open>
  \<open>decodeJWT\<close>: the body of the \<open>try\<close> block. The token must have three parts; the
  second is padded with \<open>=\<close> to a multiple of four characters, decoded and parsed.
  \<open>Inl\<close> is an exception thrown inside the block: only \<open>JSON.parse\<close> throws.
\<close>

definition pad_base64 :: "string \<Rightarrow> string" where
  "pad_base64 payload = payload @ replicate ((4 - length payload mod 4) mod 4) CHR ''=''"

definition decodeJWT_try :: "platform \<Rightarrow> string \<Rightarrow> js_error + jsval" where
  "decodeJWT_try P token =
     (let parts = js_split CHR ''.'' token in
      if length parts \<noteq> 3 then Inr JNull
      else
        (let decodedPayload = base64_utf8 (pad_base64 (parts ! 1)) in
         case JSON_parse P decodedPayload of
           None \<Rightarrow> Inl SyntaxError
         | Some parsedPayload \<Rightarrow> Inr parsedPayload))"

text \<open>The \<open>catch\<close> clause turns every exception of the block into \<open>null\<close>.\<close>

definition decodeJWT :: "platform \<Rightarrow> string \<Rightarrow> jsval" where
  "decodeJWT P token = (case decodeJWT_try P token of Inl e \<Rightarrow> JNull | Inr v \<Rightarrow> v)"

text \<open>
  \<open>getProjectFromToken\<close>:
  \<open>payload.project || payload.proj || payload.aud || payload.client_id || null\<close>.
\<close>

definition getProjectFromToken :: "platform \<Rightarrow> string \<Rightarrow> jsval" where
  "getProjectFromToken P token =
     (let payload = decodeJWT P token in
      if \<not> truthy payload then JNull
      else js_or (js_or (js_or (js_or (get_prop payload ''project'') (get_prop payload ''proj''))
                   (get_prop payload ''aud'')) (get_prop payload ''client_id'')) JNull)"

section \<open>Stored token\<close>

text \<open>
  The placeholder test of \<open>getCodicentToken\<close> on a truthy \<open>accessToken\<close>:
  two comparisons with \<open>===\<close>, then \<open>accessToken.includes("placeholder")\<close>. Strings
  and arrays have an \<open>includes\<close> method; on any other truthy value the call throws.
\<close>

definition is_placeholder :: "jsval \<Rightarrow> js_error + bool" where
  "is_placeholder accessToken =
     (case accessToken of
        JStr s \<Rightarrow>
          Inr (s = ''your_actual_api_key_here'' \<or> s = ''placeholder''
               \<or> js_includes s ''placeholder'')
      | JArr xs \<Rightarrow> Inr (List.member xs (JStr ''placeholder''))
      | _ \<Rightarrow> Inl TypeError)"

text \<open>
  The logging block that runs on a token that was kept. It decodes the token
  (\<open>token.split\<close> on a value that is not a string throws inside \<open>decodeJWT\<close>'s own
  \<open>try\<close>, so the payload is \<open>null\<close>), and it formats the date of a truthy \<open>exp\<close>
  claim, which is the one call of the block that can throw.
\<close>

definition jwt_analysis :: "platform \<Rightarrow> jsval \<Rightarrow> js_error option" where
  "jwt_analysis P token =
     (let payload = (case token of JStr s \<Rightarrow> decodeJWT P s | _ \<Rightarrow> JNull) in
      if truthy payload then
        (let exp = get_prop payload ''exp'' in
         if truthy exp \<and> \<not> date_ok P exp then Some RangeError else None)
      else None)"

text \<open>
  \<open>getCodicentToken\<close>. The argument is \<open>None\<close> when no workspace folder is open, and
  otherwise the value that \<open>getWorkspaceConfig\<close> returned for the first folder
  (\<open>JNull\<close> when the file is missing, empty or unreadable). \<open>Inl\<close> is an exception
  that leaves the function: the promise is rejected.
\<close>

definition getCodicentToken :: "platform \<Rightarrow> jsval option \<Rightarrow> js_error + jsval" where
  "getCodicentToken P workspace =
     (case
        (case workspace of
           None \<Rightarrow> Inr JNull
         | Some config \<Rightarrow>
             (let accessToken =
                    (if nullish config then JUndefined else get_prop config ''accessToken'') in
              if truthy accessToken then
                (case is_placeholder accessToken of
                   Inl e \<Rightarrow> Inl e
                 | Inr True \<Rightarrow> Inr JNull
                 | Inr False \<Rightarrow> Inr accessToken)
              else Inr JNull))
      of
        Inl e \<Rightarrow> Inl e
      | Inr token \<Rightarrow>
          if truthy token then
            (case jwt_analysis P token of Some e \<Rightarrow> Inl e | None \<Rightarrow> Inr token)
          else Inr JNull)"

section \<open>Device authorization flow\<close>

text \<open>
  What an HTTPS request comes back with: the \<open>error\<close> event of the request, or a
  status code and a body. The body is given as \<open>JSON.parse\<close> reads it, \<open>None\<close> when
  \<open>JSON.parse\<close> throws.
\<close>

datatype http_reply = RequestError | Response int "jsval option"

record DeviceAuthResponse =
  device_code :: jsval
  user_code :: jsval
  verification_uri :: jsval
  expires_in :: jsval
  interval :: jsval

text \<open>
  \<open>startDeviceAuth\<close>, as a function of the reply. Reading a property of a \<open>null\<close>
  body throws inside the \<open>try\<close> block, which resolves \<open>null\<close>.
\<close>

fun startDeviceAuth :: "http_reply \<Rightarrow> DeviceAuthResponse option" where
  "startDeviceAuth RequestError = None"
| "startDeviceAuth (Response statusCode body) =
     (if 200 \<le> statusCode \<and> statusCode < 300 then
        (case body of
           None \<Rightarrow> None
         | Some response \<Rightarrow>
             if nullish response then None
             else Some
               \<lparr> device_code = js_or (get_prop response ''device_code'') (get_prop response ''deviceCode''),
                 user_code = js_or (get_prop response ''user_code'') (get_prop response ''userCode''),
                 verification_uri =
                   js_or (get_prop response ''verification_uri'') (get_prop response ''verificationUri''),
                 expires_in =
                   js_or (js_or (get_prop response ''expires_in'') (get_prop response ''expiresIn''))
                     (JNum 600),
                 interval = js_or (get_prop response ''interval'') (JNum 5) \<rparr>)
      else None)"

text \<open>
  \<open>pollForToken\<close> resolves \<open>null\<close> at nine places and the parsed body at one. The
  places differ only in what they write to the console, so the model returns the
  place together with the resolved value.
\<close>

datatype poll_branch =
    GotTokens
  | MissingAccessToken
  | ParseFailed
  | ValidationFailed
  | AuthorizationPending
  | InvalidGrant
  | OtherError
  | ErrorParseFailed
  | HttpFailed
  | RequestFailed

text \<open>
  \<open>errorResponse.title && errorResponse.title.toLowerCase().includes("pending")\<close>;
  \<open>None\<close> when \<open>title\<close> is truthy and has no \<open>toLowerCase\<close> method.
\<close>

definition title_pending :: "jsval \<Rightarrow> bool option" where
  "title_pending title =
     (if \<not> truthy title then Some False
      else (case title of
              JStr s \<Rightarrow> Some (js_includes (toLowerCase s) ''pending'')
            | _ \<Rightarrow> None))"

fun pollForToken :: "http_reply \<Rightarrow> poll_branch \<times> jsval" where
  "pollForToken RequestError = (RequestFailed, JNull)"
| "pollForToken (Response statusCode body) =
     (if 200 \<le> statusCode \<and> statusCode < 300 then
        (case body of
           None \<Rightarrow> (ParseFailed, JNull)
         | Some response \<Rightarrow>
             if nullish response then (ParseFailed, JNull)
             else if \<not> truthy (get_prop response ''accessToken'') then (MissingAccessToken, JNull)
             else (GotTokens, response))
      else if statusCode = 400 then
        (case body of
           None \<Rightarrow> (ErrorParseFailed, JNull)
         | Some errorResponse \<Rightarrow>
             if nullish errorResponse then (ErrorParseFailed, JNull)
             else
               (let errors = get_prop errorResponse ''errors'';
                    err = get_prop errorResponse ''error''
                in
                if truthy errors \<and>
                   truthy (js_or (js_or (get_prop errors ''ClientId'') (get_prop errors ''DeviceCode''))
                             (get_prop errors ''GrantType''))
                then (ValidationFailed, JNull)
                else if err = JStr ''authorization_pending'' \<or> err = JStr ''slow_down''
                then (AuthorizationPending, JNull)
                else
                  (case title_pending (get_prop errorResponse ''title'') of
                     None \<Rightarrow> (ErrorParseFailed, JNull)
                   | Some True \<Rightarrow> (AuthorizationPending, JNull)
                   | Some False \<Rightarrow>
                       if err = JStr ''invalid_grant'' then (InvalidGrant, JNull)
                       else (OtherError, JNull))))
      else (HttpFailed, JNull))"

text \<open>
  What \<open>completeDeviceAuth\<close> does that can be seen from outside, in order: the request
  to the start endpoint (with the project parameter when the name is truthy), error and
  information messages, the prompt with the user code, the browser opened on the
  verification URI and the user code, and each poll request with the time its timer
  tick is due, in milliseconds since the start reply arrived, followed by the place
  where \<open>pollForToken\<close> resolved. The messages are the source's, without the emoji
  and without the text of a caught error.
\<close>

datatype event =
    StartRequest "string option"
  | ShowError string
  | Prompt jsval
  | OpenExternal jsval jsval
  | PollRequest int jsval
  | Console poll_branch
  | ShowInfo string

datatype choice = OpenBrowser | Cancel | Dismissed

text \<open>
  The value \<open>completeDeviceAuth\<close> resolves: \<open>Tokens accessToken refreshToken\<close> or
  \<open>null\<close>. \<open>UnmodelledTiming\<close> marks the two kinds of start reply whose polling is
  not described here: one whose \<open>expires_in\<close> or \<open>interval\<close> is not a JSON
  integer (the division coerces strings, arrays and objects by their text), and one
  for which \<open>Math.floor(expires_in / interval)\<close> is not a finite number (then the
  attempt counter is compared with an infinity or with NaN).
\<close>

datatype flow_result = Tokens jsval jsval | NoTokens | UnmodelledTiming

definition emit :: "event list \<Rightarrow> flow_result \<times> event list \<Rightarrow> flow_result \<times> event list" where
  "emit es r = (fst r, es @ snd r)"

section \<open>Numbers\<close>

text \<open>
  A JavaScript number is an IEEE double. \<open>Math.floor(a / b)\<close> on two JSON integers
  rounds three times to the nearest double, ties to the even mantissa: each operand
  when it is read, and the quotient. \<open>round_half_even n d\<close> is the integer nearest to
  \<open>n / d\<close>. For \<open>n \<ge> 0\<close> and \<open>d > 0\<close>, \<open>double_floor n d\<close> and
  \<open>double_ceil n d\<close> are the floor and the ceiling of the double nearest to
  \<open>n / d\<close>: the quotient is scaled by a power of two to a mantissa of 53 bits
  (\<open>up_shift\<close> finds the power for a quotient below \<open>2^53\<close>, \<open>down_shift\<close> for a
  larger one), rounded, and scaled back. A double of \<open>2^1024\<close> or more is an infinity.
\<close>

definition round_half_even :: "int \<Rightarrow> int \<Rightarrow> int" where
  "round_half_even n d =
     (let q = n div d; r = n mod d in
      if 2 * r < d then q else if d < 2 * r then q + 1 else if even q then q else q + 1)"

function up_shift :: "int \<Rightarrow> int \<Rightarrow> nat \<Rightarrow> nat" where
  "up_shift n d s = (if n \<le> 0 \<or> 2 ^ 52 * d \<le> n * 2 ^ s then s else up_shift n d (Suc s))"
  by pat_completeness auto
termination
proof (relation "measure (\<lambda>(n, d, s). nat (2 ^ 52 * d) - s)")
  show "wf (measure (\<lambda>(n, d, s). nat (2 ^ 52 * d) - s))" by simp
next
  fix n d :: int and s :: nat
  assume a: "\<not> (n \<le> 0 \<or> 2 ^ 52 * d \<le> n * 2 ^ s)"
  have "int s < 2 ^ s" using of_nat_less_iff [of s "2 ^ s", where ?'a = int] by simp
  also have "\<dots> \<le> n * 2 ^ s" using a by (simp add: mult_le_cancel_right1)
  also have "\<dots> < 2 ^ 52 * d" using a by simp
  finally have "s < nat (2 ^ 52 * d)" by simp
  then show "((n, d, Suc s), (n, d, s)) \<in> measure (\<lambda>(n, d, s). nat (2 ^ 52 * d) - s)" by simp
qed

function down_shift :: "int \<Rightarrow> int \<Rightarrow> nat \<Rightarrow> nat" where
  "down_shift n d t = (if d \<le> 0 \<or> n < 2 ^ 53 * d * 2 ^ t then t else down_shift n d (Suc t))"
  by pat_completeness auto
termination
proof (relation "measure (\<lambda>(n, d, t). nat n - t)")
  show "wf (measure (\<lambda>(n, d, t). nat n - t))" by simp
next
  fix n d :: int and t :: nat
  assume a: "\<not> (d \<le> 0 \<or> n < 2 ^ 53 * d * 2 ^ t)"
  then have d: "1 \<le> d" and n: "2 ^ 53 * d * 2 ^ t \<le> n" by simp_all
  have "int t < 2 ^ t" using of_nat_less_iff [of t "2 ^ t", where ?'a = int] by simp
  also have "\<dots> \<le> (2 ^ 53 * d) * 2 ^ t"
  proof -
    have "(1::int) \<le> 2 ^ 53 * d" using d by simp
    then show ?thesis by (simp add: mult_le_cancel_right1)
  qed
  also have "\<dots> \<le> n" using n by simp
  finally have "t < nat n" by simp
  then show "((n, d, Suc t), (n, d, t)) \<in> measure (\<lambda>(n, d, t). nat n - t)" by simp
qed

declare up_shift.simps [simp del] down_shift.simps [simp del]

definition double_floor :: "int \<Rightarrow> int \<Rightarrow> int" where
  "double_floor n d =
     (if n < 2 ^ 53 * d then
        (let s = up_shift n d 0 in round_half_even (n * 2 ^ s) d div 2 ^ s)
      else
        (let t = down_shift n d 0 in round_half_even n (d * 2 ^ t) * 2 ^ t))"

definition double_ceil :: "int \<Rightarrow> int \<Rightarrow> int" where
  "double_ceil n d =
     (if n < 2 ^ 53 * d then
        (let s = up_shift n d 0 in - ((- round_half_even (n * 2 ^ s) d) div 2 ^ s))
      else
        (let t = down_shift n d 0 in round_half_even n (d * 2 ^ t) * 2 ^ t))"

text \<open>
  \<open>Math.floor(e / i)\<close> for the JSON integers \<open>e\<close> and \<open>i\<close>, \<open>None\<close> when it is
  not finite: division by zero, or an \<open>e\<close> that reads as an infinity. An \<open>i\<close> that
  reads as an infinity gives a zero.
\<close>

definition math_floor_div :: "int \<Rightarrow> int \<Rightarrow> int option" where
  "math_floor_div e i =
     (let a = double_floor \<bar>e\<bar> 1; b = double_floor \<bar>i\<bar> 1 in
      if i = 0 \<or> 2 ^ 1024 \<le> a then None
      else if 2 ^ 1024 \<le> b then Some 0
      else if (e < 0) = (i < 0) then Some (double_floor a b)
      else Some (- double_ceil a b))"

section \<open>The flow\<close>

text \<open>\<open>x ?? undefined\<close>.\<close>

definition or_undefined :: "jsval \<Rightarrow> jsval" where
  "or_undefined v = (if nullish v then JUndefined else v)"

text \<open>
  \<open>setInterval(f, ms)\<close>: a delay below 1 or above 2147483647 is set to 1.
\<close>

definition timer_delay :: "int \<Rightarrow> int" where
  "timer_delay ms = (if ms < 1 \<or> 2147483647 < ms then 1 else ms)"

text \<open>
  The timer callback, once per tick. \<open>attempts\<close> counts the ticks so far;
  \<open>replies k\<close> is what the \<open>k\<close>-th poll request comes back with, and each poll is
  taken to finish before the next tick. \<open>now\<close> is the time the last tick was due (the
  time of the user's answer, before the first). The time in a \<open>PollRequest\<close> is the
  time its tick is due, one delay after the one before: a real tick is never early and
  can be late, so the request goes out then or later.
\<close>

function poll_loop ::
  "(nat \<Rightarrow> http_reply) \<Rightarrow> jsval \<Rightarrow> int \<Rightarrow> int \<Rightarrow> nat \<Rightarrow> int \<Rightarrow> flow_result \<times> event list" where
  "poll_loop replies deviceCode delay maxAttempts attempts now =
     (if int (Suc attempts) > maxAttempts then
        (NoTokens, [ShowError ''Device authorization expired. Please try again.''])
      else
        (let polled = pollForToken (replies (Suc attempts));
             tokenResponse = snd polled
         in
         emit [PollRequest (now + delay) deviceCode, Console (fst polled)]
           (if truthy tokenResponse then
              (Tokens (get_prop tokenResponse ''accessToken'')
                 (or_undefined (get_prop tokenResponse ''refreshToken'')),
               [ShowInfo ''Successfully authorized with Codicent!''])
            else poll_loop replies deviceCode delay maxAttempts (Suc attempts) (now + delay))))"
  by pat_completeness auto
termination
  by (relation "measure (\<lambda>(replies, deviceCode, delay, maxAttempts, attempts, now).
        nat (maxAttempts - int attempts))") auto

definition project_param :: "string option \<Rightarrow> string option" where
  "project_param projectName =
     (case projectName of None \<Rightarrow> None | Some n \<Rightarrow> if n = [] then None else Some n)"

text \<open>
  \<open>completeDeviceAuth\<close>. Its inputs are the project name, the reply of the start
  endpoint, the user's answer to the prompt, the time the user takes to answer (in
  milliseconds) and the replies of the token endpoint. When \<open>vscode.Uri.parse\<close>
  throws, the \<open>catch\<close> clause shows an error and returns \<open>null\<close>; nothing else
  inside the \<open>try\<close> block throws.
\<close>

definition completeDeviceAuth ::
  "platform \<Rightarrow> string option \<Rightarrow> http_reply \<Rightarrow> choice \<Rightarrow> nat \<Rightarrow> (nat \<Rightarrow> http_reply) \<Rightarrow>
     flow_result \<times> event list" where
  "completeDeviceAuth P projectName startReply userChoice answerTime replies =
     emit [StartRequest (project_param projectName)]
       (case startDeviceAuth startReply of
          None \<Rightarrow> (NoTokens, [ShowError ''Failed to start device authorization''])
        | Some deviceAuth \<Rightarrow>
            if \<not> truthy (user_code deviceAuth) \<or> \<not> truthy (device_code deviceAuth)
               \<or> \<not> truthy (verification_uri deviceAuth)
            then
              (NoTokens,
               [ShowError ''Invalid device authorization response. Check console for details.''])
            else
              emit [Prompt (user_code deviceAuth)]
                (if userChoice \<noteq> OpenBrowser then (NoTokens, [])
                 else if \<not> uri_ok P (verification_uri deviceAuth) (user_code deviceAuth)
                 then (NoTokens, [ShowError ''Device authorization failed''])
                 else
                   emit [OpenExternal (verification_uri deviceAuth) (user_code deviceAuth)]
                     (case (expires_in deviceAuth, interval deviceAuth) of
                        (JNum e, JNum i) \<Rightarrow>
                          (case math_floor_div e i of
                             None \<Rightarrow> (UnmodelledTiming, [])
                           | Some maxAttempts \<Rightarrow>
                               poll_loop replies (device_code deviceAuth)
                                 (timer_delay (i * 1000)) maxAttempts 0 (int answerTime))
                      | _ \<Rightarrow> (UnmodelledTiming, []))))"

section \<open>Observations on a run\<close>

fun poll_time :: "event \<Rightarrow> int option" where
  "poll_time (PollRequest t deviceCode) = Some t"
| "poll_time e = None"

definition poll_times :: "event list \<Rightarrow> int list" where
  "poll_times evs = List.map_filter poll_time evs"

definition poll_count :: "event list \<Rightarrow> nat" where
  "poll_count evs = length (poll_times evs)"




text \<open>
  A platform for running the examples. Its \<open>JSON.parse\<close> knows four texts; every
  other text the examples give it is not JSON (\<open>{\<close> and \<open>{"}\<close>). Its dates
  format, as the one for \<open>exp\<close> 1999999999 does, and it parses the address
  \<open>https://codicent.com/device?user_code=ABCD\<close>.
\<close>

definition sample_platform :: platform where
  \<open>sample_platform =
     \<lparr> JSON_parse = map_of
         [(''{"project":"demo","exp":1999999999}'',
             JObj [(''project'', JStr ''demo''), (''exp'', JNum 1999999999)]),
          (''{"aud":"svc1"}'', JObj [(''aud'', JStr ''svc1'')]),
          (''{"project":"","proj":"x"}'', JObj [(''project'', JStr []), (''proj'', JStr ''x'')]),
          (''{}'', JObj [])],
       date_ok = (\<lambda>v. True),
       uri_ok = (\<lambda>uri code. uri = JStr ''https://codicent.com/device'' \<and> code = JStr ''ABCD'') \<rparr>\<close>

section \<open>Example replies\<close>

text \<open>
  A complete start reply with the given expiry and interval, the record
  \<open>startDeviceAuth\<close> makes of it, and the reply of the token endpoint while the user
  has not approved yet.
\<close>

definition sample_start :: "int \<Rightarrow> int \<Rightarrow> http_reply" where
  "sample_start e i =
     Response 200 (Some (JObj
       [(''device_code'', JStr ''dc''), (''user_code'', JStr ''ABCD''),
        (''verification_uri'', JStr ''https://codicent.com/device''),
        (''expires_in'', JNum e), (''interval'', JNum i)]))"


definition pending_reply :: http_reply where
  "pending_reply = Response 400 (Some (JObj [(''error'', JStr ''authorization_pending'')]))"

text \<open>The body of a start reply, with its five fields named in snake case and in camel case.\<close>

definition snake_case_body :: "jsval \<Rightarrow> jsval \<Rightarrow> jsval \<Rightarrow> jsval \<Rightarrow> jsval \<Rightarrow> jsval" where
  "snake_case_body d u v e i =
     JObj [(''device_code'', d), (''user_code'', u), (''verification_uri'', v),
           (''expires_in'', e), (''interval'', i)]"

definition camelCase_body :: "jsval \<Rightarrow> jsval \<Rightarrow> jsval \<Rightarrow> jsval \<Rightarrow> jsval \<Rightarrow> jsval" where
  "camelCase_body d u v e i =
     JObj [(''deviceCode'', d), (''userCode'', u), (''verificationUri'', v),
           (''expiresIn'', e), (''interval'', i)]"

section \<open>Substrings\<close>

text \<open>\<open>js_includes\<close> is the substring relation.\<close>

lemma starts_with_iff: "starts_with s t \<longleftrightarrow> (\<exists>post. s = t @ post)"
  by (induction s t rule: starts_with.induct) auto

lemma js_includes_iff: "js_includes s t \<longleftrightarrow> (\<exists>pre post. s = pre @ t @ post)"
proof (induction s)
  case Nil
  show ?case by auto
next
  case (Cons x xs)
  have "(\<exists>pre post. x # xs = pre @ t @ post) \<longleftrightarrow>
        (\<exists>post. x # xs = t @ post) \<or> (\<exists>pre post. xs = pre @ t @ post)"
    by (auto simp: Cons_eq_append_conv)
  with Cons show ?case by (simp add: starts_with_iff)
qed

section \<open>The polling loop, step by step\<close>

lemma poll_times_append [simp]: "poll_times (xs @ ys) = poll_times xs @ poll_times ys"
  by (simp add: poll_times_def List.map_filter_def)

lemma poll_times_Nil [simp]: "poll_times [] = []"
  by (simp add: poll_times_def List.map_filter_def)

lemma poll_times_Cons [simp]:
  "poll_times (e # es) = (case poll_time e of None \<Rightarrow> poll_times es | Some t \<Rightarrow> t # poll_times es)"
  by (simp add: poll_times_def List.map_filter_def split: option.splits)

lemma snd_emit [simp]: "snd (emit es r) = es @ snd r"
  by (simp add: emit_def)

lemma fst_emit [simp]: "fst (emit es r) = fst r"
  by (simp add: emit_def)

declare poll_loop.simps [simp del]

lemma poll_loop_expired:
  "maxAttempts < int (Suc attempts) \<Longrightarrow>
   poll_loop replies deviceCode delay maxAttempts attempts now =
     (NoTokens, [ShowError ''Device authorization expired. Please try again.''])"
  by (subst poll_loop.simps) simp

lemma poll_loop_null:
  "int (Suc attempts) \<le> maxAttempts \<Longrightarrow> \<not> truthy (snd (pollForToken (replies (Suc attempts)))) \<Longrightarrow>
   poll_loop replies deviceCode delay maxAttempts attempts now =
     emit [PollRequest (now + delay) deviceCode, Console (fst (pollForToken (replies (Suc attempts))))]
       (poll_loop replies deviceCode delay maxAttempts (Suc attempts) (now + delay))"
  by (subst poll_loop.simps) (simp add: Let_def)

lemma poll_loop_token:
  "int (Suc attempts) \<le> maxAttempts \<Longrightarrow> truthy (snd (pollForToken (replies (Suc attempts)))) \<Longrightarrow>
   poll_loop replies deviceCode delay maxAttempts attempts now =
     (Tokens (get_prop (snd (pollForToken (replies (Suc attempts)))) ''accessToken'')
        (or_undefined (get_prop (snd (pollForToken (replies (Suc attempts)))) ''refreshToken'')),
      [PollRequest (now + delay) deviceCode, Console (fst (pollForToken (replies (Suc attempts)))),
       ShowInfo ''Successfully authorized with Codicent!''])"
  by (subst poll_loop.simps) (simp add: Let_def emit_def)




section \<open>Rounding\<close>

text \<open>
  On positive integers below \<open>2^53\<close> the three roundings of \<open>Math.floor(e / i)\<close>
  change nothing: the operands are doubles as they stand, and the rounded quotient has
  the floor of the exact one. Beyond \<open>2^53\<close> it can be larger.
\<close>

lemma up_shift_spec: "0 < n \<Longrightarrow> 2 ^ 52 * d \<le> n * 2 ^ up_shift n d s"
proof (induction n d s rule: up_shift.induct)
  case (1 n d s)
  show ?case
  proof (cases "2 ^ 52 * d \<le> n * 2 ^ s")
    case True
    then show ?thesis by (subst up_shift.simps) simp
  next
    case False
    with "1.prems" have "2 ^ 52 * d \<le> n * 2 ^ up_shift n d (Suc s)"
      by (intro "1.IH") simp_all
    with False "1.prems" show ?thesis by (subst up_shift.simps) simp
  qed
qed

lemma round_half_even_cases:
  "0 < d \<Longrightarrow> round_half_even n d = n div d \<or>
     (round_half_even n d = n div d + 1 \<and> d \<le> 2 * (n mod d))"
  by (auto simp: round_half_even_def Let_def)

lemma scaled_round_floor:
  fixes n d P :: int
  assumes n: "0 < n" and d: "0 < d" and P: "0 < P"
    and lo: "2 ^ 52 * d \<le> n * P" and hi: "n < 2 ^ 53"
  shows "round_half_even (n * P) d div P = n div d"
proof -
  define N where "N = n * P"
  define Q where "Q = n div d"
  define x where "x = N div d"
  define X where "X = (Q + 1) * P * d"
  have base: "x div P = Q"
  proof -
    have "N div d div P = N div (d * P)" using P by (simp add: zdiv_zmult2_eq)
    also have "\<dots> = Q" using P by (simp add: N_def Q_def)
    finally show ?thesis by (simp add: x_def)
  qed
  from round_half_even_cases [OF d, of N]
  show ?thesis
  proof
    assume "round_half_even N d = N div d"
    with base show ?thesis by (simp add: N_def Q_def x_def)
  next
    assume up: "round_half_even N d = N div d + 1 \<and> d \<le> 2 * (N mod d)"
    have "(x + 1) div P = Q"
    proof (rule ccontr)
      assume ne: "(x + 1) div P \<noteq> Q"
      have xeq: "x = Q * P + x mod P" using div_mult_mod_eq [of x P] base by simp
      have r: "0 \<le> x mod P" "x mod P < P" using P by simp_all
      have top: "x + 1 = (Q + 1) * P"
      proof (rule ccontr)
        assume "x + 1 \<noteq> (Q + 1) * P"
        with xeq r have lt: "x mod P + 1 < P" by (simp add: algebra_simps)
        have "x + 1 = P * Q + (x mod P + 1)" using xeq by (simp add: algebra_simps)
        from int_div_pos_eq [OF this _ lt] r have "(x + 1) div P = Q" by simp
        with ne show False by simp
      qed
      have Neq: "N = x * d + N mod d" using div_mult_mod_eq [of N d] by (simp add: x_def)
      have "(x + 1) * d = (Q + 1) * P * d" by (simp only: top)
      then have "x * d = X - d" by (simp add: X_def algebra_simps)
      with Neq have f1: "N = X - d + N mod d" by simp
      have "n = Q * d + n mod d" using div_mult_mod_eq [of n d] by (simp add: Q_def)
      moreover have "n mod d < d" using d by simp
      ultimately have "n + 1 \<le> (Q + 1) * d" by (simp add: algebra_simps)
      then have "(n + 1) * P \<le> (Q + 1) * d * P" using P by (simp add: mult_right_mono)
      then have f2: "N + P \<le> X" by (simp add: N_def X_def algebra_simps)
      have f3: "N < 2 ^ 53 * P" using hi P by (simp add: N_def)
      have f4: "2 ^ 52 * d \<le> N" using lo by (simp add: N_def)
      from f1 f2 f3 f4 up show False by simp
    qed
    with up show ?thesis by (simp add: N_def Q_def x_def)
  qed
qed

lemma double_floor_exact:
  assumes "0 < n" and "0 < d" and "n < 2 ^ 53"
  shows "double_floor n d = n div d"
proof -
  have "(2::int) ^ 53 * 1 \<le> 2 ^ 53 * d" using assms by (intro mult_left_mono) simp_all
  then have "n < 2 ^ 53 * d" using assms by simp
  moreover have "round_half_even (n * 2 ^ up_shift n d 0) d div 2 ^ up_shift n d 0 = n div d"
    using assms by (intro scaled_round_floor up_shift_spec) simp_all
  ultimately show ?thesis by (simp add: double_floor_def Let_def)
qed

lemma math_floor_div_safe:
  assumes "0 < e" and "e < 2 ^ 53" and "0 < i" and "i < 2 ^ 53"
  shows "math_floor_div e i = Some (e div i)"
proof -
  have a: "double_floor \<bar>e\<bar> 1 = e" using assms double_floor_exact [of e 1] by simp
  have b: "double_floor \<bar>i\<bar> 1 = i" using assms double_floor_exact [of i 1] by simp
  have big: "(2::int) ^ 53 \<le> 2 ^ 1024" by (rule power_increasing) simp_all
  show ?thesis
    using assms big by (simp add: math_floor_div_def a b double_floor_exact Let_def)
qed

lemma math_floor_div_huge:
  "math_floor_div 13510798882111490 4503599627370497 = Some 3"
  by code_simp

section \<open>The flow around the loop\<close>

lemma emit_emit [simp]: "emit es (emit fs r) = emit (es @ fs) r"
  by (simp add: emit_def)

lemma emit_pair [simp]: "emit es (r, fs) = (r, es @ fs)"
  by (simp add: emit_def)




lemma js_or_undefined_left [simp]: "js_or JUndefined x = x"
  by (simp add: js_or_def)

lemma js_or_truthy [simp]: "truthy x \<Longrightarrow> js_or x y = x"
  by (simp add: js_or_def)

lemma truthy_js_or_undefined [simp]: "truthy (js_or x JUndefined) = truthy x"
  by (simp add: js_or_def)

lemma js_or_js_or_undefined [simp]: "js_or (js_or x JUndefined) y = js_or x y"
  by (simp add: js_or_def)

lemma startDeviceAuth_snake:
  "200 \<le> s \<Longrightarrow> s < 300 \<Longrightarrow>
   startDeviceAuth (Response s (Some (snake_case_body d u v e i))) =
     Some \<lparr> device_code = js_or d JUndefined, user_code = js_or u JUndefined,
            verification_uri = js_or v JUndefined,
            expires_in = js_or e (JNum 600), interval = js_or i (JNum 5) \<rparr>"
  by (simp add: snake_case_body_def)

lemma startDeviceAuth_camel:
  "200 \<le> s \<Longrightarrow> s < 300 \<Longrightarrow>
   startDeviceAuth (Response s (Some (camelCase_body d u v e i))) =
     Some \<lparr> device_code = d, user_code = u, verification_uri = v,
            expires_in = js_or e (JNum 600), interval = js_or i (JNum 5) \<rparr>"
  by (simp add: camelCase_body_def)

lemma startDeviceAuth_not_2xx:
  "\<not> (200 \<le> s \<and> s < 300) \<Longrightarrow> startDeviceAuth (Response s body) = None"
  by auto

lemma completeDeviceAuth_invalid:
  "startDeviceAuth startReply = Some deviceAuth \<Longrightarrow>
   \<not> (truthy (user_code deviceAuth) \<and> truthy (device_code deviceAuth) \<and>
      truthy (verification_uri deviceAuth)) \<Longrightarrow>
   completeDeviceAuth P projectName startReply userChoice answerTime replies =
     (NoTokens,
      [StartRequest (project_param projectName),
       ShowError ''Invalid device authorization response. Check console for details.''])"
  by (auto simp: completeDeviceAuth_def)

lemma truthy_js_or: "truthy (js_or a b) = (truthy a \<or> truthy b)"
  by (simp add: js_or_def)

lemma startDeviceAuth_fields:
  "startDeviceAuth (Response statusCode (Some response)) = Some deviceAuth \<Longrightarrow>
   device_code deviceAuth = js_or (get_prop response ''device_code'') (get_prop response ''deviceCode'') \<and>
   user_code deviceAuth = js_or (get_prop response ''user_code'') (get_prop response ''userCode'') \<and>
   verification_uri deviceAuth =
     js_or (get_prop response ''verification_uri'') (get_prop response ''verificationUri'')"
  by (auto split: if_splits)

lemma completeDeviceAuth_cong_start:
  "startDeviceAuth r = startDeviceAuth r' \<Longrightarrow>
   completeDeviceAuth P projectName r userChoice answerTime replies =
   completeDeviceAuth P projectName r' userChoice answerTime replies"
  by (simp add: completeDeviceAuth_def)


lemma pollForToken_pending_reply: "pollForToken pending_reply = (AuthorizationPending, JNull)"
  by (simp add: pending_reply_def)

lemma uri_ok_sample:
  "uri_ok sample_platform (JStr ''https://codicent.com/device'') (JStr ''ABCD'')"
  by (simp add: sample_platform_def)

lemmas run_eval =
  completeDeviceAuth_def sample_start_def js_or_def timer_delay_def project_param_def
  poll_loop_null poll_loop_token poll_loop_expired pollForToken_pending_reply or_undefined_def
  uri_ok_sample math_floor_div_safe math_floor_div_huge

section \<open>The polling loop\<close>

text \<open>
  Claim C1 says that a poll classified as fatal stops the loop at once, with \<open>null\<close>
  and no further request. The source intends it: where \<open>pollForToken\<close> meets
  validation errors, \<open>invalid_grant\<close> or another error, its comments read
  "Stop polling". But every one of those places resolves \<open>null\<close>, the value of a
  pending authorization, and the timer callback of \<open>completeDeviceAuth\<close> polls again
  on every \<open>null\<close>. Here the first poll meets validation errors on \<open>ClientId\<close>;
  the flow polls a second time, five seconds later, and returns the tokens of that
  second poll.
\<close>

theorem fatal_poll_is_retried:
  "pollForToken (Response 400 (Some (JObj [(''errors'', JObj [(''ClientId'', JArr [JStr ''required''])])])))
     = (ValidationFailed, JNull) \<and>
   completeDeviceAuth sample_platform None (sample_start 600 5) OpenBrowser 0
     (\<lambda>k. if k = 1
          then Response 400 (Some (JObj [(''errors'', JObj [(''ClientId'', JArr [JStr ''required''])])]))
          else Response 200 (Some (JObj [(''accessToken'', JStr ''abc.def.ghi'')])))
     = (Tokens (JStr ''abc.def.ghi'') JUndefined,
        [StartRequest None, Prompt (JStr ''ABCD''),
         OpenExternal (JStr ''https://codicent.com/device'') (JStr ''ABCD''),
         PollRequest 5000 (JStr ''dc''), Console ValidationFailed,
         PollRequest 10000 (JStr ''dc''), Console GotTokens,
         ShowInfo ''Successfully authorized with Codicent!''])"
  by (simp add: run_eval)

text \<open>Two poll requests were issued in that run.\<close>

theorem fatal_poll_is_retried_witness:
  "poll_count (snd (completeDeviceAuth sample_platform None (sample_start 600 5) OpenBrowser 0
     (\<lambda>k. if k = 1
          then Response 400 (Some (JObj [(''errors'', JObj [(''ClientId'', JArr [JStr ''required''])])]))
          else Response 200 (Some (JObj [(''accessToken'', JStr ''abc.def.ghi'')]))))) = 2"
  using fatal_poll_is_retried by (simp add: poll_count_def)










text \<open>
  Claim C7. A reply with a 2xx status is resolved as a success exactly when its body
  parses and has a truthy \<open>accessToken\<close>. Then \<open>pollForToken\<close> resolves the body,
  and the flow returns tokens whose \<open>accessToken\<close> is the body's. A body without an
  \<open>accessToken\<close> (or with a falsy one) resolves \<open>null\<close> and is not a success.
\<close>

theorem success_carries_access_token:
  assumes "200 \<le> statusCode" and "statusCode < 300"
  shows "(fst (pollForToken (Response statusCode body)) = GotTokens \<longleftrightarrow>
            (\<exists>response. body = Some response \<and> truthy (get_prop response ''accessToken''))) \<and>
         (truthy (get_prop response ''accessToken'') \<longrightarrow>
            pollForToken (Response statusCode (Some response)) = (GotTokens, response) \<and>
            (int (Suc attempts) \<le> maxAttempts \<and>
             replies (Suc attempts) = Response statusCode (Some response) \<longrightarrow>
               fst (poll_loop replies deviceCode delay maxAttempts attempts now) =
                 Tokens (get_prop response ''accessToken'')
                   (or_undefined (get_prop response ''refreshToken'')))) \<and>
         (\<not> truthy (get_prop response ''accessToken'') \<longrightarrow>
            snd (pollForToken (Response statusCode (Some response))) = JNull \<and>
            fst (pollForToken (Response statusCode (Some response))) \<noteq> GotTokens)"
proof -
  have nn: "\<not> nullish r" if "truthy (get_prop r ''accessToken'')" for r
    using that by (cases r) auto
  have ok: "pollForToken (Response statusCode (Some r)) = (GotTokens, r)"
    if "truthy (get_prop r ''accessToken'')" for r
    using that nn [OF that] assms by simp
  have a: "fst (pollForToken (Response statusCode body)) = GotTokens \<longleftrightarrow>
            (\<exists>response. body = Some response \<and> truthy (get_prop response ''accessToken''))"
    using assms by (cases body) (auto simp: nn)
  have b: "fst (poll_loop replies deviceCode delay maxAttempts attempts now) =
                 Tokens (get_prop response ''accessToken'')
                   (or_undefined (get_prop response ''refreshToken''))"
    if "truthy (get_prop response ''accessToken'')" "int (Suc attempts) \<le> maxAttempts"
       "replies (Suc attempts) = Response statusCode (Some response)"
  proof -
    have "truthy response" using that(1) by (cases response) auto
    then show ?thesis using that ok [OF that(1)] by (simp add: poll_loop_token)
  qed
  have c: "snd (pollForToken (Response statusCode (Some response))) = JNull \<and>
            fst (pollForToken (Response statusCode (Some response))) \<noteq> GotTokens"
    if "\<not> truthy (get_prop response ''accessToken'')"
    using that assms by simp
  from a b c ok show ?thesis by blast
qed

text \<open>
  The body \<open>{"accessToken":"abc.def.ghi"}\<close> gives the access token
  \<open>abc.def.ghi\<close>; a body with a token type only gives \<open>null\<close>.
\<close>

theorem success_carries_access_token_witness:
  "pollForToken (Response 200 (Some (JObj [(''accessToken'', JStr ''abc.def.ghi'')])))
     = (GotTokens, JObj [(''accessToken'', JStr ''abc.def.ghi'')]) \<and>
   fst (poll_loop (\<lambda>k. Response 200 (Some (JObj [(''accessToken'', JStr ''abc.def.ghi'')])))
          (JStr ''dc'') 5000 120 0 0)
     = Tokens (JStr ''abc.def.ghi'') JUndefined \<and>
   snd (pollForToken (Response 200 (Some (JObj [(''tokenType'', JStr ''Bearer'')])))) = JNull"
proof -
  have s: "(200::int) \<le> 200" "(200::int) < 300" by simp_all
  show ?thesis
    using success_carries_access_token [OF s, of "Some (JObj [(''accessToken'', JStr ''abc.def.ghi'')])"
        "JObj [(''accessToken'', JStr ''abc.def.ghi'')]" 0 120
        "\<lambda>k. Response 200 (Some (JObj [(''accessToken'', JStr ''abc.def.ghi'')]))" "JStr ''dc''" 5000 0]
      success_carries_access_token [OF s, of "Some (JObj [(''tokenType'', JStr ''Bearer'')])"
        "JObj [(''tokenType'', JStr ''Bearer'')]"]
    by (simp add: or_undefined_def)
qed

section \<open>The start reply\<close>

text \<open>
  Claim C4 says that \<open>startDeviceAuth\<close> fails on a reply that lacks a required field
  and never produces a partly filled record. It does produce one: the check of the
  required fields is in \<open>completeDeviceAuth\<close>.
\<close>

theorem start_returns_partial_record:
  "startDeviceAuth (Response 200 (Some (JObj [(''user_code'', JStr ''ABCD'')]))) =
     Some \<lparr> device_code = JUndefined, user_code = JStr ''ABCD'', verification_uri = JUndefined,
            expires_in = JNum 600, interval = JNum 5 \<rparr>"
  by (simp add: js_or_def)

text \<open>
  Claim C4, amended. When the start reply lacks the device code, the user code or the
  verification URI under both of its names (or has only falsy values there),
  \<open>completeDeviceAuth\<close> returns \<open>null\<close> after one error message: the user is not
  prompted, no browser is opened and no poll is issued.
\<close>

theorem incomplete_start_reply_aborts:
  assumes "(\<not> truthy (get_prop response ''device_code'') \<and> \<not> truthy (get_prop response ''deviceCode''))
         \<or> (\<not> truthy (get_prop response ''user_code'') \<and> \<not> truthy (get_prop response ''userCode''))
         \<or> (\<not> truthy (get_prop response ''verification_uri'') \<and>
             \<not> truthy (get_prop response ''verificationUri''))"
  shows "completeDeviceAuth P projectName (Response statusCode (Some response)) userChoice answerTime replies =
     (NoTokens,
      [StartRequest (project_param projectName),
       ShowError (if startDeviceAuth (Response statusCode (Some response)) = None
                  then ''Failed to start device authorization''
                  else ''Invalid device authorization response. Check console for details.'')])"
proof (cases "startDeviceAuth (Response statusCode (Some response))")
  case None
  then show ?thesis by (simp add: completeDeviceAuth_def)
next
  case (Some deviceAuth)
  from startDeviceAuth_fields [OF Some] assms
  have "\<not> (truthy (user_code deviceAuth) \<and> truthy (device_code deviceAuth) \<and>
      truthy (verification_uri deviceAuth))"
    by (auto simp: truthy_js_or)
  from completeDeviceAuth_invalid [OF Some this] Some show ?thesis by simp
qed

theorem incomplete_start_reply_aborts_witness:
  "completeDeviceAuth sample_platform None (Response 200 (Some (JObj [(''user_code'', JStr ''ABCD'')]))) OpenBrowser 0
     (\<lambda>k. Response 200 (Some (JObj [(''accessToken'', JStr ''abc.def.ghi'')]))) =
     (NoTokens,
      [StartRequest None,
       ShowError ''Invalid device authorization response. Check console for details.''])"
proof -
  let ?r = "JObj [(''user_code'', JStr ''ABCD'')]"
  have a: "(\<not> truthy (get_prop ?r ''device_code'') \<and> \<not> truthy (get_prop ?r ''deviceCode''))
         \<or> (\<not> truthy (get_prop ?r ''user_code'') \<and> \<not> truthy (get_prop ?r ''userCode''))
         \<or> (\<not> truthy (get_prop ?r ''verification_uri'') \<and> \<not> truthy (get_prop ?r ''verificationUri''))"
    by simp
  show ?thesis
    using incomplete_start_reply_aborts [OF a, of sample_platform None 200 OpenBrowser 0
        "\<lambda>k. Response 200 (Some (JObj [(''accessToken'', JStr ''abc.def.ghi'')]))"]
    by (simp add: project_param_def js_or_def)
qed

text \<open>
  Claim C5 says that both parsers take snake case and camel case alike. The token
  reply is read under \<open>accessToken\<close> only: the same token under \<open>access_token\<close>
  counts as missing.
\<close>

theorem token_reply_snake_case_rejected:
  "pollForToken (Response 200 (Some (JObj [(''access_token'', JStr ''abc.def.ghi'')])))
     = (MissingAccessToken, JNull) \<and>
   pollForToken (Response 200 (Some (JObj [(''accessToken'', JStr ''abc.def.ghi'')])))
     = (GotTokens, JObj [(''accessToken'', JStr ''abc.def.ghi'')])"
  by simp

text \<open>
  Claim C5, amended. A 2xx start reply whose device code, user code and verification
  URI are truthy is accepted in snake case and in camel case, and either gives a
  \<open>DeviceAuthResponse\<close> of those values, with 600 and 5 in place of a falsy expiry
  and interval. The run of \<open>completeDeviceAuth\<close> is the same for either casing of
  any payload. The token reply is read under the names \<open>accessToken\<close> and \<open>refreshToken\<close> only:
  without a property named \<open>accessToken\<close> it resolves \<open>null\<close>, and the refresh token
  returned is the property named \<open>refreshToken\<close>, \<open>undefined\<close> when there is none.
\<close>

theorem start_reply_either_casing:
  "(200 \<le> statusCode \<and> statusCode < 300 \<and> truthy d \<and> truthy u \<and> truthy v \<longrightarrow>
      startDeviceAuth (Response statusCode (Some (snake_case_body d u v e i))) =
        Some \<lparr> device_code = d, user_code = u, verification_uri = v,
               expires_in = js_or e (JNum 600), interval = js_or i (JNum 5) \<rparr> \<and>
      startDeviceAuth (Response statusCode (Some (camelCase_body d u v e i))) =
        Some \<lparr> device_code = d, user_code = u, verification_uri = v,
               expires_in = js_or e (JNum 600), interval = js_or i (JNum 5) \<rparr>) \<and>
   completeDeviceAuth P projectName (Response statusCode (Some (snake_case_body d u v e i)))
       userChoice answerTime replies
     = completeDeviceAuth P projectName (Response statusCode (Some (camelCase_body d u v e i)))
         userChoice answerTime replies \<and>
   (map_of kvs ''accessToken'' = None \<longrightarrow>
      snd (pollForToken (Response statusCode (Some (JObj kvs)))) = JNull) \<and>
   (200 \<le> statusCode \<and> statusCode < 300 \<and> map_of kvs ''accessToken'' = Some a \<and> truthy a \<and>
    int (Suc attempts) \<le> maxAttempts \<and>
    tokenReplies (Suc attempts) = Response statusCode (Some (JObj kvs)) \<longrightarrow>
      fst (poll_loop tokenReplies deviceCode delay maxAttempts attempts now) =
        Tokens a (case map_of kvs ''refreshToken'' of
                    None \<Rightarrow> JUndefined
                  | Some r \<Rightarrow> or_undefined r))"
proof -
  let ?snake = "Response statusCode (Some (snake_case_body d u v e i))"
  let ?camel = "Response statusCode (Some (camelCase_body d u v e i))"
  let ?auth = "\<lparr> device_code = d, user_code = u, verification_uri = v,
               expires_in = js_or e (JNum 600), interval = js_or i (JNum 5) \<rparr>"
  have accepted: "startDeviceAuth ?snake = Some ?auth \<and> startDeviceAuth ?camel = Some ?auth"
    if "200 \<le> statusCode \<and> statusCode < 300 \<and> truthy d \<and> truthy u \<and> truthy v"
  proof -
    from that have s: "200 \<le> statusCode" "statusCode < 300" by simp_all
    from that show ?thesis
      unfolding startDeviceAuth_snake [OF s] startDeviceAuth_camel [OF s] by simp
  qed
  have same: "startDeviceAuth ?snake = startDeviceAuth ?camel" if "truthy d \<and> truthy u \<and> truthy v"
  proof (cases "200 \<le> statusCode \<and> statusCode < 300")
    case True
    with that accepted show ?thesis by simp
  next
    case False
    show ?thesis by (simp only: startDeviceAuth_not_2xx [OF False])
  qed
  have flow: "completeDeviceAuth P projectName ?snake userChoice answerTime replies
     = completeDeviceAuth P projectName ?camel userChoice answerTime replies"
  proof (cases "truthy d \<and> truthy u \<and> truthy v")
    case True
    then show ?thesis by (rule completeDeviceAuth_cong_start [OF same])
  next
    case missing: False
    show ?thesis
    proof (cases "200 \<le> statusCode \<and> statusCode < 300")
      case True
      then have s: "200 \<le> statusCode" "statusCode < 300" by simp_all
      from missing show ?thesis
        by (simp add: completeDeviceAuth_invalid [OF startDeviceAuth_snake [OF s]]
              completeDeviceAuth_invalid [OF startDeviceAuth_camel [OF s]])
    next
      case False
      show ?thesis
        by (rule completeDeviceAuth_cong_start) (simp only: startDeviceAuth_not_2xx [OF False])
    qed
  qed
  have token: "snd (pollForToken (Response statusCode (Some (JObj kvs)))) = JNull"
    if "map_of kvs ''accessToken'' = None"
    using that by (simp add: Let_def split: option.splits bool.splits)
  have refresh: "fst (poll_loop tokenReplies deviceCode delay maxAttempts attempts now) =
        Tokens a (case map_of kvs ''refreshToken'' of None \<Rightarrow> JUndefined | Some r \<Rightarrow> or_undefined r)"
    if t: "200 \<le> statusCode \<and> statusCode < 300 \<and> map_of kvs ''accessToken'' = Some a \<and> truthy a \<and>
      int (Suc attempts) \<le> maxAttempts \<and>
      tokenReplies (Suc attempts) = Response statusCode (Some (JObj kvs))"
  proof -
    from t have p: "pollForToken (tokenReplies (Suc attempts)) = (GotTokens, JObj kvs)" by simp
    from t have budget: "int (Suc attempts) \<le> maxAttempts" by simp
    have tr: "truthy (snd (pollForToken (tokenReplies (Suc attempts))))" by (simp add: p)
    from t show ?thesis
      unfolding poll_loop_token [where replies = tokenReplies, OF budget tr] p
      by (simp add: or_undefined_def split: option.splits)
  qed
  from accepted flow token refresh show ?thesis by blast
qed

theorem start_reply_either_casing_witness:
  "startDeviceAuth (Response 200 (Some (snake_case_body (JStr ''dc'') (JStr ''ABCD'')
      (JStr ''https://codicent.com/device'') (JNum 600) (JNum 5)))) =
     Some \<lparr> device_code = JStr ''dc'', user_code = JStr ''ABCD'',
            verification_uri = JStr ''https://codicent.com/device'',
            expires_in = JNum 600, interval = JNum 5 \<rparr> \<and>
   startDeviceAuth (Response 200 (Some (camelCase_body (JStr ''dc'') (JStr ''ABCD'')
      (JStr ''https://codicent.com/device'') (JNum 600) (JNum 5)))) =
     Some \<lparr> device_code = JStr ''dc'', user_code = JStr ''ABCD'',
            verification_uri = JStr ''https://codicent.com/device'',
            expires_in = JNum 600, interval = JNum 5 \<rparr> \<and>
   snd (pollForToken (Response 200 (Some (JObj
      [(''access_token'', JStr ''abc.def.ghi''), (''refresh_token'', JStr ''r1'')])))) = JNull \<and>
   fst (poll_loop
      (\<lambda>k. Response 200 (Some (JObj
         [(''accessToken'', JStr ''abc.def.ghi''), (''refresh_token'', JStr ''r1'')])))
      (JStr ''dc'') 5000 120 0 0) = Tokens (JStr ''abc.def.ghi'') JUndefined"
proof -
  have a: "map_of [(''access_token'', JStr ''abc.def.ghi''), (''refresh_token'', JStr ''r1'')]
             ''accessToken'' = None"
    by simp
  have b: "(200::int) \<le> 200 \<and> (200::int) < 300 \<and> truthy (JStr ''dc'') \<and> truthy (JStr ''ABCD'') \<and>
      truthy (JStr ''https://codicent.com/device'')"
    by simp
  have c: "(200::int) \<le> 200 \<and> (200::int) < 300 \<and>
      map_of [(''accessToken'', JStr ''abc.def.ghi''), (''refresh_token'', JStr ''r1'')]
        ''accessToken'' = Some (JStr ''abc.def.ghi'') \<and> truthy (JStr ''abc.def.ghi'') \<and>
      int (Suc 0) \<le> 120 \<and>
      (\<lambda>k. Response 200 (Some (JObj
         [(''accessToken'', JStr ''abc.def.ghi''), (''refresh_token'', JStr ''r1'')]))) (Suc 0) =
        Response 200 (Some (JObj
         [(''accessToken'', JStr ''abc.def.ghi''), (''refresh_token'', JStr ''r1'')]))"
    by simp
  have r: "map_of [(''accessToken'', JStr ''abc.def.ghi''), (''refresh_token'', JStr ''r1'')]
             ''refreshToken'' = None"
    by simp
  from start_reply_either_casing [of 200 "JStr ''dc''" "JStr ''ABCD''"
        "JStr ''https://codicent.com/device''" "JNum 600" "JNum 5" _ _ _ _ _
        "[(''access_token'', JStr ''abc.def.ghi''), (''refresh_token'', JStr ''r1'')]"] a b
  have first: "startDeviceAuth (Response 200 (Some (snake_case_body (JStr ''dc'') (JStr ''ABCD'')
      (JStr ''https://codicent.com/device'') (JNum 600) (JNum 5)))) =
     Some \<lparr> device_code = JStr ''dc'', user_code = JStr ''ABCD'',
            verification_uri = JStr ''https://codicent.com/device'',
            expires_in = JNum 600, interval = JNum 5 \<rparr> \<and>
   startDeviceAuth (Response 200 (Some (camelCase_body (JStr ''dc'') (JStr ''ABCD'')
      (JStr ''https://codicent.com/device'') (JNum 600) (JNum 5)))) =
     Some \<lparr> device_code = JStr ''dc'', user_code = JStr ''ABCD'',
            verification_uri = JStr ''https://codicent.com/device'',
            expires_in = JNum 600, interval = JNum 5 \<rparr> \<and>
   snd (pollForToken (Response 200 (Some (JObj
      [(''access_token'', JStr ''abc.def.ghi''), (''refresh_token'', JStr ''r1'')])))) = JNull"
    by simp
  from start_reply_either_casing [of 200 _ _ _ _ _ _ _ _ _ _
        "[(''accessToken'', JStr ''abc.def.ghi''), (''refresh_token'', JStr ''r1'')]"
        "JStr ''abc.def.ghi''" 0 120
        "\<lambda>k. Response 200 (Some (JObj
         [(''accessToken'', JStr ''abc.def.ghi''), (''refresh_token'', JStr ''r1'')]))"
        "JStr ''dc''" 5000 0] c r
  have second: "fst (poll_loop
      (\<lambda>k. Response 200 (Some (JObj
         [(''accessToken'', JStr ''abc.def.ghi''), (''refresh_token'', JStr ''r1'')])))
      (JStr ''dc'') 5000 120 0 0) = Tokens (JStr ''abc.def.ghi'') JUndefined"
    by simp
  from first second show ?thesis by simp
qed

section \<open>The token inspector and the stored token\<close>

text \<open>
  Claim C8 says that \<open>decodeJWT\<close> returns absent on invalid base64. It cannot: the
  decoder never fails. It skips what is not base64, so a payload with a space in it,
  which is no base64 and no part of a JWT, still gives its claims.
\<close>

theorem invalid_base64_segment_decoded:
  "decodeJWT sample_platform ''h.e3 0.s'' = JObj []"
  by code_simp

text \<open>
  Claim C8, amended. \<open>decodeJWT\<close> validates structure only. When the token splits at
  the dots into exactly three parts, and the second part, padded with \<open>=\<close> and decoded
  (characters outside the base64 alphabet skipped), is a text that parses to a JSON
  object, that object is returned. When the number of parts is not three, or when the
  decoded text does not parse, the result is \<open>null\<close>. No exception leaves
  \<open>decodeJWT\<close>: whatever is thrown inside the \<open>try\<close> block comes out as
  \<open>null\<close>.
\<close>

theorem decodeJWT_structural:
  "(length (js_split CHR ''.'' token) = 3 \<and>
      JSON_parse P (base64_utf8 (pad_base64 (js_split CHR ''.'' token ! 1))) = Some (JObj claims)
    \<longrightarrow> decodeJWT P token = JObj claims) \<and>
   (length (js_split CHR ''.'' token) \<noteq> 3 \<longrightarrow> decodeJWT P token = JNull) \<and>
   (JSON_parse P (base64_utf8 (pad_base64 (js_split CHR ''.'' token ! 1))) = None
    \<longrightarrow> decodeJWT P token = JNull) \<and>
   (\<forall>e. decodeJWT_try P token = Inl e \<longrightarrow> decodeJWT P token = JNull)"
  by (simp add: decodeJWT_def decodeJWT_try_def Let_def)

text \<open>
  The theorem at work: the payload \<open>{"project":"demo","exp":1999999999}\<close> comes back
  as the mapping with \<open>project\<close> \<open>demo\<close>; the same token cut to two parts gives
  \<open>null\<close>, and so do the payloads \<open>e3\<close> and \<open>eyJ9\<close>, which decode to the texts
  \<open>{\<close> and \<open>{"}\<close>.
\<close>

theorem decodeJWT_structural_witness:
  \<open>decodeJWT sample_platform ''h.eyJwcm9qZWN0IjoiZGVtbyIsImV4cCI6MTk5OTk5OTk5OX0.s''
     = JObj [(''project'', JStr ''demo''), (''exp'', JNum 1999999999)] \<and>
   decodeJWT sample_platform ''h.eyJwcm9qZWN0IjoiZGVtbyIsImV4cCI6MTk5OTk5OTk5OX0'' = JNull \<and>
   decodeJWT sample_platform ''h.e3.s'' = JNull \<and>
   decodeJWT sample_platform ''h.eyJ9.s'' = JNull\<close>
proof -
  let ?t = "''h.eyJwcm9qZWN0IjoiZGVtbyIsImV4cCI6MTk5OTk5OTk5OX0.s''"
  let ?claims = "[(''project'', JStr ''demo''), (''exp'', JNum 1999999999)]"
  have parts: "length (js_split CHR ''.'' ?t) = 3" by code_simp
  have js: "JSON_parse sample_platform (base64_utf8 (pad_base64 (js_split CHR ''.'' ?t ! 1)))
              = Some (JObj ?claims)"
    by code_simp
  have two: "length (js_split CHR ''.'' ''h.eyJwcm9qZWN0IjoiZGVtbyIsImV4cCI6MTk5OTk5OTk5OX0'') \<noteq> 3"
    by code_simp
  have js1: "JSON_parse sample_platform (base64_utf8 (pad_base64 (js_split CHR ''.'' ''h.e3.s'' ! 1)))
               = None"
    by code_simp
  have js2: "JSON_parse sample_platform (base64_utf8 (pad_base64 (js_split CHR ''.'' ''h.eyJ9.s'' ! 1)))
               = None"
    by code_simp
  have a: "decodeJWT sample_platform ?t = JObj ?claims"
    using decodeJWT_structural [of ?t sample_platform ?claims] parts js by blast
  have b: "decodeJWT sample_platform ''h.eyJwcm9qZWN0IjoiZGVtbyIsImV4cCI6MTk5OTk5OTk5OX0'' = JNull"
    using decodeJWT_structural
      [of "''h.eyJwcm9qZWN0IjoiZGVtbyIsImV4cCI6MTk5OTk5OTk5OX0''" sample_platform] two
    by blast
  have c: "decodeJWT sample_platform ''h.e3.s'' = JNull"
    using decodeJWT_structural [of "''h.e3.s''" sample_platform] js1 by blast
  have d: "decodeJWT sample_platform ''h.eyJ9.s'' = JNull"
    using decodeJWT_structural [of "''h.eyJ9.s''" sample_platform] js2 by blast
  from a b c d show ?thesis by simp
qed

text \<open>
  Claim C9 says that \<open>getProjectFromToken\<close> returns the first claim that is present.
  It returns the first that is truthy: with the claims \<open>{"project":"","proj":"x"}\<close>
  the claim \<open>project\<close> is present, and the result is \<open>x\<close>.
\<close>

theorem empty_project_claim_skipped:
  "decodeJWT sample_platform ''h.eyJwcm9qZWN0IjoiIiwicHJvaiI6IngifQ.s''
     = JObj [(''project'', JStr []), (''proj'', JStr ''x'')] \<and>
   getProjectFromToken sample_platform ''h.eyJwcm9qZWN0IjoiIiwicHJvaiI6IngifQ.s'' = JStr ''x''"
  by code_simp

text \<open>
  Claim C9, amended. For every token whose payload decodes to a claims object,
  \<open>getProjectFromToken\<close> returns the first of the claims \<open>project\<close>, \<open>proj\<close>,
  \<open>aud\<close>, \<open>client_id\<close>, in this order, whose value is truthy (not \<open>null\<close>,
  \<open>false\<close>, \<open>0\<close> or the empty string), and \<open>null\<close> when none of the four has one.
\<close>

theorem getProjectFromToken_priority:
  "decodeJWT P token = JObj claims \<Longrightarrow>
   getProjectFromToken P token =
     (if truthy (get_prop (JObj claims) ''project'') then get_prop (JObj claims) ''project''
      else if truthy (get_prop (JObj claims) ''proj'') then get_prop (JObj claims) ''proj''
      else if truthy (get_prop (JObj claims) ''aud'') then get_prop (JObj claims) ''aud''
      else if truthy (get_prop (JObj claims) ''client_id'') then get_prop (JObj claims) ''client_id''
      else JNull)"
  by (simp add: getProjectFromToken_def js_or_def)

text \<open>Claims \<open>{"aud":"svc1"}\<close> give \<open>svc1\<close>, and claims \<open>{}\<close> give \<open>null\<close>.\<close>

theorem getProjectFromToken_priority_witness:
  "getProjectFromToken sample_platform ''h.eyJhdWQiOiJzdmMxIn0.s'' = JStr ''svc1'' \<and>
   getProjectFromToken sample_platform ''h.e30.s'' = JNull"
proof -
  have a: "decodeJWT sample_platform ''h.eyJhdWQiOiJzdmMxIn0.s'' = JObj [(''aud'', JStr ''svc1'')]"
    by code_simp
  have b: "decodeJWT sample_platform ''h.e30.s'' = JObj []"
    by code_simp
  show ?thesis
    using getProjectFromToken_priority [OF a] getProjectFromToken_priority [OF b] by simp
qed

text \<open>
  Claim C10. When the stored workspace config has an \<open>accessToken\<close> that is the string
  \<open>your_actual_api_key_here\<close> or \<open>placeholder\<close>, or a string that contains
  \<open>placeholder\<close>, \<open>getCodicentToken\<close> returns \<open>null\<close>: the same as for a config
  with no \<open>accessToken\<close>, and the same as with no workspace folder at all.
\<close>

theorem placeholder_token_ignored:
  "get_prop config ''accessToken'' = JStr s \<Longrightarrow>
   s = ''your_actual_api_key_here'' \<or> s = ''placeholder'' \<or> (\<exists>pre post. s = pre @ ''placeholder'' @ post) \<Longrightarrow>
   getCodicentToken P (Some config) = Inr JNull \<and>
   getCodicentToken P (Some config) = getCodicentToken P (Some (JObj [(''project'', project)])) \<and>
   getCodicentToken P (Some config) = getCodicentToken P None"
  by (cases config) (auto simp: getCodicentToken_def is_placeholder_def js_includes_iff Let_def)

theorem placeholder_token_ignored_witness:
  "getCodicentToken sample_platform
     (Some (JObj [(''project'', JStr ''demo''), (''accessToken'', JStr ''my-placeholder-token'')]))
     = Inr JNull"
proof -
  have a: "get_prop (JObj [(''project'', JStr ''demo''), (''accessToken'', JStr ''my-placeholder-token'')])
             ''accessToken'' = JStr ''my-placeholder-token''"
    by simp
  have "''my-placeholder-token'' = ''my-'' @ ''placeholder'' @ ''-token''" by simp
  then have b: "''my-placeholder-token'' = ''your_actual_api_key_here'' \<or> ''my-placeholder-token'' = ''placeholder''
      \<or> (\<exists>pre post. ''my-placeholder-token'' = pre @ ''placeholder'' @ post)"
    by blast
  show ?thesis using placeholder_token_ignored [OF a b] by simp
qed

end
